theory Spec2Isabelle
  imports Complex_Main
begin

section \<open>JavaScript values as the handlers see them\<close>

text \<open>
  Every provider body reaches the handlers as the result of \<^verbatim>\<open>response.json()\<close>, typed
  \<^verbatim>\<open>any\<close>. A number is either NaN or a finite value; finite values are taken as
  real numbers (rounding to binary64 and the infinities are not modelled). A missing
  property reads as \<^verbatim>\<open>undefined\<close>. \<open>JFunction\<close> stands for a built-in method object,
  which a property read can return although no JSON text denotes it.
\<close>

datatype jsnum = NaN | Finite real

datatype jsval =
    JUndefined
  | JNull
  | JBool bool
  | JNum jsnum
  | JStr string
  | JArr "jsval list"
  | JObj "(string \<times> jsval) list"
  | JFunction

datatype exn = TypeError | FetchError

text \<open>ToBoolean: what \<^verbatim>\<open>||\<close>, \<^verbatim>\<open>!\<close>, \<^verbatim>\<open>?:\<close>, \<^verbatim>\<open>if\<close> and \<^verbatim>\<open>filter(Boolean)\<close> test.\<close>

fun truthy :: "jsval \<Rightarrow> bool" where
  "truthy JUndefined = False"
| "truthy JNull = False"
| "truthy (JBool b) = b"
| "truthy (JNum NaN) = False"
| "truthy (JNum (Finite x)) = (x \<noteq> 0)"
| "truthy (JStr s) = (s \<noteq> [])"
| "truthy (JArr xs) = True"
| "truthy (JObj kvs) = True"
| "truthy JFunction = True"

text \<open>What \<^verbatim>\<open>??\<close> and \<^verbatim>\<open>?.\<close> test.\<close>

fun nullish :: "jsval \<Rightarrow> bool" where
  "nullish JUndefined = True"
| "nullish JNull = True"
| "nullish v = False"

text \<open>
  Reading property \<open>k\<close> of a value that is neither \<^verbatim>\<open>undefined\<close> nor \<^verbatim>\<open>null\<close>. An
  object gives its own property. Of the names the handlers read, none is inherited from
  \<^verbatim>\<open>Object.prototype\<close>, \<^verbatim>\<open>String.prototype\<close>, \<^verbatim>\<open>Number.prototype\<close> or
  \<^verbatim>\<open>Boolean.prototype\<close>, and only \<^verbatim>\<open>reverse\<close> is inherited by arrays.
\<close>

fun jsprop :: "jsval \<Rightarrow> string \<Rightarrow> jsval" where
  "jsprop (JObj kvs) k = (case map_of kvs k of Some v \<Rightarrow> v | None \<Rightarrow> JUndefined)"
| "jsprop (JArr xs) k = (if k = ''reverse'' then JFunction else JUndefined)"
| "jsprop v k = JUndefined"

text \<open>\<^verbatim>\<open>v.k\<close>: a TypeError on \<^verbatim>\<open>undefined\<close> and \<^verbatim>\<open>null\<close>.\<close>

definition get_prop :: "jsval \<Rightarrow> string \<Rightarrow> exn + jsval" where
  "get_prop v k = (if nullish v then Inl TypeError else Inr (jsprop v k))"

text \<open>\<^verbatim>\<open>v?.k\<close>\<close>

definition opt_prop :: "jsval \<Rightarrow> string \<Rightarrow> jsval" where
  "opt_prop v k = (if nullish v then JUndefined else jsprop v k)"

text \<open>\<^verbatim>\<open>a || b\<close> and \<^verbatim>\<open>a ?? b\<close>, for a right operand whose evaluation cannot throw.\<close>

definition js_or :: "jsval \<Rightarrow> jsval \<Rightarrow> jsval" where
  "js_or a b = (if truthy a then a else b)"

definition js_coalesce :: "jsval \<Rightarrow> jsval \<Rightarrow> jsval" where
  "js_coalesce a b = (if nullish a then b else a)"

section \<open>IP syntax check\<close>

text \<open>
  The two regular expressions of \<^verbatim>\<open>isValidIP\<close> use literals, character classes,
  alternation, concatenation, \<^verbatim>\<open>?\<close> and bounded repetition only. \<open>rmatch r s\<close> lists
  the rests of \<open>s\<close> after every way \<open>r\<close> can match a prefix of it; every alternative
  of both expressions is anchored by \<^verbatim>\<open>^\<close> and \<^verbatim>\<open>$\<close>, so \<^verbatim>\<open>test\<close> holds when
  some way leaves the empty rest.
\<close>

datatype regex =
    Lit char
  | Cls string
  | Alt regex regex
  | Seq regex regex
  | Opt regex
  | Rep nat nat regex

fun iter_match :: "(string \<Rightarrow> string list) \<Rightarrow> nat \<Rightarrow> string list \<Rightarrow> string list" where
  "iter_match f 0 ss = ss"
| "iter_match f (Suc n) ss = iter_match f n (concat (map f ss))"

primrec rmatch :: "regex \<Rightarrow> string \<Rightarrow> string list" where
  "rmatch (Lit c) s = (case s of [] \<Rightarrow> [] | x # xs \<Rightarrow> if x = c then [xs] else [])"
| "rmatch (Cls cs) s = (case s of [] \<Rightarrow> [] | x # xs \<Rightarrow> if x \<in> set cs then [xs] else [])"
| "rmatch (Alt r1 r2) s = rmatch r1 s @ rmatch r2 s"
| "rmatch (Seq r1 r2) s = concat (map (rmatch r2) (rmatch r1 s))"
| "rmatch (Opt r) s = rmatch r s @ [s]"
| "rmatch (Rep lo hi r) s = concat (map (\<lambda>n. iter_match (rmatch r) n [s]) [lo..<Suc hi])"

definition regex_test :: "regex \<Rightarrow> string \<Rightarrow> bool" where
  "regex_test r s = ([] \<in> set (rmatch r s))"

definition digit :: regex where
  "digit = Cls ''0123456789''"

definition hexdigit :: regex where
  "hexdigit = Cls ''0123456789abcdefABCDEF''"

text \<open>\<^verbatim>\<open>(?:25[0-5]|2[0-4][0-9]|[01]?[0-9][0-9]?)\<close>\<close>

definition octet :: regex where
  "octet =
     Alt (Seq (Lit CHR ''2'') (Seq (Lit CHR ''5'') (Cls ''012345'')))
    (Alt (Seq (Lit CHR ''2'') (Seq (Cls ''01234'') digit))
         (Seq (Opt (Cls ''01'')) (Seq digit (Opt digit))))"

text \<open>\<^verbatim>\<open>^(?:octet\.){3}octet$\<close>\<close>

definition ipv4 :: regex where
  "ipv4 = Seq (Rep 3 3 (Seq octet (Lit CHR ''.''))) octet"

text \<open>\<^verbatim>\<open>[0-9a-fA-F]{1,4}\<close>\<close>

definition hextet :: regex where
  "hextet = Rep 1 4 hexdigit"

text \<open>
  \<^verbatim>\<open>^(h:){7}h$|^::$|^(h:){1,7}:$|^:(:(h)){1,7}$\<close> with \<^verbatim>\<open>h = [0-9a-fA-F]{1,4}\<close>
\<close>

definition ipv6 :: regex where
  "ipv6 =
     Alt (Seq (Rep 7 7 (Seq hextet (Lit CHR '':''))) hextet)
    (Alt (Seq (Lit CHR '':'') (Lit CHR '':''))
    (Alt (Seq (Rep 1 7 (Seq hextet (Lit CHR '':''))) (Lit CHR '':''))
         (Seq (Lit CHR '':'') (Rep 1 7 (Seq (Lit CHR '':'') hextet)))))"

definition isValidIP :: "string \<Rightarrow> bool" where
  "isValidIP ip = (regex_test ipv4 ip \<or> regex_test ipv6 ip)"

section \<open>Threat assessment: the risk score\<close>

text \<open>
  The threat handler reads \<^verbatim>\<open>data.proxy\<close>, \<^verbatim>\<open>data.hosting\<close>, \<^verbatim>\<open>data.mobile\<close> and
  \<^verbatim>\<open>data.reverse\<close> after \<^verbatim>\<open>data.status !== 'success'\<close> has let \<open>data\<close> through, so
  \<open>data\<close> is neither \<^verbatim>\<open>undefined\<close> nor \<^verbatim>\<open>null\<close> there. \<^verbatim>\<open>riskScore\<close> and
  \<^verbatim>\<open>riskFactors\<close> are the two mutable locals; each \<^verbatim>\<open>if\<close> updates both.
\<close>

record risk_state =
  riskScore :: int
  riskFactors :: "string list"

definition bump :: "int \<Rightarrow> string \<Rightarrow> risk_state \<Rightarrow> risk_state" where
  "bump pts factor st =
     st\<lparr>riskScore := riskScore st + pts, riskFactors := riskFactors st @ [factor]\<rparr>"

definition risk_accumulate :: "jsval \<Rightarrow> risk_state" where
  "risk_accumulate data =
     (let st0 = \<lparr>riskScore = 0, riskFactors = []\<rparr>;
          st1 = (if truthy (jsprop data ''proxy'') then bump 40 ''proxy_or_vpn'' st0 else st0);
          st2 = (if truthy (jsprop data ''hosting'') then bump 30 ''datacenter_hosting'' st1 else st1);
          st3 = (if truthy (jsprop data ''mobile'') then bump 10 ''mobile_carrier'' st2 else st2);
          st4 = (if \<not> truthy (jsprop data ''reverse'') then bump 10 ''no_reverse_dns'' st3 else st3)
      in st4)"

definition riskLevel :: "int \<Rightarrow> string" where
  "riskLevel score = (if score \<ge> 50 then ''high'' else if score \<ge> 20 then ''medium'' else ''low'')"

text \<open>The \<^verbatim>\<open>risk\<close> block of the handler's output.\<close>

record risk_block =
  score :: int
  level :: string
  factors :: "string list"

definition risk_of :: "jsval \<Rightarrow> risk_block" where
  "risk_of data =
     (let st = risk_accumulate data
      in \<lparr>score = riskScore st, level = riskLevel (riskScore st), factors = riskFactors st\<rparr>)"

section \<open>Built-ins the merge calls\<close>

text \<open>
  \<^verbatim>\<open>parseFloat\<close> and the number-to-string conversion of a template literal belong to the
  language, not to the repository; the handlers are modelled for any pair of them.
\<close>

record builtins =
  parseFloat :: "string \<Rightarrow> jsnum"
  numberToString :: "real \<Rightarrow> string"

fun join_comma :: "string list \<Rightarrow> string" where
  "join_comma [] = []"
| "join_comma [s] = s"
| "join_comma (s # ss) = s @ '','' @ join_comma ss"

text \<open>ToString, as \<^verbatim>\<open>`AS${v}`\<close> and \<^verbatim>\<open>parseFloat(v)\<close> apply it.\<close>

fun to_string :: "builtins \<Rightarrow> jsval \<Rightarrow> string" where
  "to_string B JUndefined = ''undefined''"
| "to_string B JNull = ''null''"
| "to_string B (JBool b) = (if b then ''true'' else ''false'')"
| "to_string B (JNum NaN) = ''NaN''"
| "to_string B (JNum (Finite x)) = numberToString B x"
| "to_string B (JStr s) = s"
| "to_string B (JArr xs) = join_comma (map (\<lambda>v. if nullish v then [] else to_string B v) xs)"
| "to_string B (JObj kvs) = ''[object Object]''"
| "to_string B JFunction = ''function reverse() { [native code] }''"

text \<open>
  ToString throws a TypeError on an object whose own \<^verbatim>\<open>toString\<close> property is not
  callable (no parsed body holds a callable one), and on an array with such an element;
  \<open>to_string\<close> is the result in every other case.
\<close>

fun to_string_throws :: "jsval \<Rightarrow> bool" where
  "to_string_throws (JObj kvs) = (''toString'' \<in> set (map fst kvs))"
| "to_string_throws (JArr xs) = list_ex to_string_throws xs"
| "to_string_throws v = False"

text \<open>\<^verbatim>\<open>`AS${v}`\<close>\<close>

definition template_AS :: "builtins \<Rightarrow> jsval \<Rightarrow> exn + jsval" where
  "template_AS B v =
     (if to_string_throws v then Inl TypeError else Inr (JStr (''AS'' @ to_string B v)))"

text \<open>\<^verbatim>\<open>s.split(',')\<close>: the pieces between the commas; never an empty array.\<close>

fun split_comma :: "string \<Rightarrow> string list" where
  "split_comma [] = [Nil]"
| "split_comma (c # cs) =
     (if c = CHR '','' then [] # split_comma cs
      else (case split_comma cs of p # ps \<Rightarrow> (c # p) # ps | [] \<Rightarrow> [c # Nil]))"

text \<open>\<^verbatim>\<open>pieces[i]\<close>: \<^verbatim>\<open>undefined\<close> past the end.\<close>

definition at_index :: "string list \<Rightarrow> nat \<Rightarrow> jsval" where
  "at_index pieces i = (if i < length pieces then JStr (pieces ! i) else JUndefined)"

section \<open>Settled fetches and exceptions\<close>

text \<open>
  \<^verbatim>\<open>fetchJSON\<close> either throws (network error, abort on timeout, HTTP status that is not
  ok, body that is not JSON) or returns the parsed body. \<^verbatim>\<open>Promise.allSettled\<close> reports
  the first as \<^verbatim>\<open>rejected\<close> and the second as \<^verbatim>\<open>fulfilled\<close> with the value.
\<close>

datatype settled = Rejected | Fulfilled jsval

definition bind_exn :: "exn + 'a \<Rightarrow> ('a \<Rightarrow> exn + 'b) \<Rightarrow> exn + 'b" where
  "bind_exn m f = (case m of Inl e \<Rightarrow> Inl e | Inr v \<Rightarrow> f v)"

text \<open>\<^verbatim>\<open>a || b\<close> where evaluating \<open>b\<close> may throw: \<open>b\<close> is evaluated only when \<open>a\<close> is falsy.\<close>

definition or_lazy :: "jsval \<Rightarrow> exn + jsval \<Rightarrow> exn + jsval" where
  "or_lazy a b = (if truthy a then Inr a else b)"

section \<open>Full lookup: the merge of three sources\<close>

text \<open>\<^verbatim>\<open>x.status === 'fulfilled' ? x.value : null\<close>\<close>

definition settled_value :: "settled \<Rightarrow> jsval" where
  "settled_value x = (case x of Fulfilled v \<Rightarrow> v | Rejected \<Rightarrow> JNull)"

text \<open>
  \<^verbatim>\<open>(secondary?.loc ? parseFloat(secondary.loc.split(',')[i]) : null)\<close>. A truthy
  \<^verbatim>\<open>loc\<close> that is not a string has no callable \<^verbatim>\<open>split\<close>, and the call throws.
\<close>

definition loc_part :: "builtins \<Rightarrow> jsval \<Rightarrow> nat \<Rightarrow> exn + jsval" where
  "loc_part B secondary i =
     (let loc = opt_prop secondary ''loc''
      in if truthy loc then
           (case loc of
              JStr s \<Rightarrow> Inr (JNum (parseFloat B (to_string B (at_index (split_comma s) i))))
            | _ \<Rightarrow> Inl TypeError)
         else Inr JNull)"

definition location_lat :: "builtins \<Rightarrow> jsval \<Rightarrow> jsval \<Rightarrow> jsval \<Rightarrow> exn + jsval" where
  "location_lat B primary secondary tertiary =
     or_lazy (opt_prop primary ''lat'')
       (bind_exn (loc_part B secondary 0) (\<lambda>m. Inr (js_or m (opt_prop tertiary ''latitude''))))"

definition location_lon :: "builtins \<Rightarrow> jsval \<Rightarrow> jsval \<Rightarrow> jsval \<Rightarrow> exn + jsval" where
  "location_lon B primary secondary tertiary =
     or_lazy (opt_prop primary ''lon'')
       (bind_exn (loc_part B secondary 1) (\<lambda>m. Inr (js_or m (opt_prop tertiary ''longitude''))))"

text \<open>
  \<^verbatim>\<open>primary?.as || secondary?.org || `AS${tertiary?.connection?.asn}`\<close>: the template
  is evaluated only when both operands before it are falsy.
\<close>

definition network_asn :: "builtins \<Rightarrow> jsval \<Rightarrow> jsval \<Rightarrow> jsval \<Rightarrow> exn + jsval" where
  "network_asn B primary secondary tertiary =
     or_lazy (js_or (opt_prop primary ''as'') (opt_prop secondary ''org''))
       (template_AS B (opt_prop (opt_prop tertiary ''connection'') ''asn''))"

text \<open>
  The object literal the handler returns as \<^verbatim>\<open>output\<close>, its properties in source order;
  \<^verbatim>\<open>fetchedAt\<close>, read from the clock, is left out. Only \<^verbatim>\<open>lat\<close>, \<^verbatim>\<open>lon\<close> and
  \<^verbatim>\<open>asn\<close> can throw, in that order.
\<close>

definition merged :: "builtins \<Rightarrow> string \<Rightarrow> jsval \<Rightarrow> jsval \<Rightarrow> jsval \<Rightarrow> exn + jsval" where
  "merged B ip primary secondary tertiary =
     bind_exn (location_lat B primary secondary tertiary) (\<lambda>lat.
     bind_exn (location_lon B primary secondary tertiary) (\<lambda>lon.
     bind_exn (network_asn B primary secondary tertiary) (\<lambda>asn.
     Inr (JObj
      [(''ip'', JStr ip),
       (''location'', JObj
         [(''country'', js_or (js_or (opt_prop primary ''country'') (opt_prop secondary ''country''))
                              (opt_prop tertiary ''country'')),
          (''countryCode'', js_or (js_or (opt_prop primary ''countryCode'') (opt_prop secondary ''country''))
                                  (opt_prop tertiary ''country_code'')),
          (''region'', js_or (js_or (opt_prop primary ''regionName'') (opt_prop secondary ''region''))
                             (opt_prop tertiary ''region'')),
          (''city'', js_or (js_or (opt_prop primary ''city'') (opt_prop secondary ''city''))
                           (opt_prop tertiary ''city'')),
          (''zip'', js_or (js_or (opt_prop primary ''zip'') (opt_prop secondary ''postal''))
                          (opt_prop tertiary ''postal'')),
          (''lat'', lat),
          (''lon'', lon),
          (''timezone'', js_or (js_or (opt_prop primary ''timezone'') (opt_prop secondary ''timezone''))
                               (opt_prop (opt_prop tertiary ''timezone'') ''id''))]),
       (''network'', JObj
         [(''isp'', js_or (opt_prop primary ''isp'') (opt_prop (opt_prop tertiary ''connection'') ''isp'')),
          (''org'', js_or (js_or (opt_prop primary ''org'') (opt_prop secondary ''org''))
                          (opt_prop (opt_prop tertiary ''connection'') ''org'')),
          (''asn'', asn),
          (''hostname'', js_or (opt_prop primary ''reverse'') (opt_prop secondary ''hostname'')),
          (''domain'', opt_prop (opt_prop tertiary ''connection'') ''domain'')]),
       (''threat'', JObj
         [(''isProxy'', js_coalesce (opt_prop primary ''proxy'') (JBool False)),
          (''isVPN'', js_coalesce (opt_prop primary ''proxy'') (JBool False)),
          (''isHosting'', js_coalesce (opt_prop primary ''hosting'') (JBool False)),
          (''isMobile'', js_coalesce (opt_prop primary ''mobile'') (JBool False)),
          (''isAnycast'', js_coalesce (opt_prop secondary ''anycast'') (JBool False))]),
       (''confidence'', JObj
         [(''sourcesQueried'', JNum (Finite 3)),
          (''sourcesResponded'',
             JNum (Finite (real (length (filter truthy [primary, secondary, tertiary])))))]),
       (''sources'', JArr [JStr ''ip-api.com'', JStr ''ipinfo.io'', JStr ''ipwho.is''])]))))"

text \<open>
  The handler of \<^verbatim>\<open>full\<close>, given the input \<open>ip\<close> and how each of the three fetches
  settled. With an invalid \<open>ip\<close> no fetch is made.
\<close>

definition full :: "builtins \<Rightarrow> string \<Rightarrow> settled \<Rightarrow> settled \<Rightarrow> settled \<Rightarrow> exn + jsval" where
  "full B ip ipApi ipInfo ipWho =
     (if \<not> isValidIP ip then
        Inr (JObj [(''error'', JStr ''Invalid IP address format''), (''ip'', JStr ip)])
      else
        (let primary = settled_value ipApi;
             secondary = settled_value ipInfo;
             tertiary = settled_value ipWho
         in merged B ip primary secondary tertiary))"

section \<open>Batch lookup\<close>

text \<open>
  The body of the \<^verbatim>\<open>try\<close> block for one address: the \<^verbatim>\<open>await\<close> rethrows what
  \<^verbatim>\<open>fetchJSON\<close> threw, and \<^verbatim>\<open>data.status\<close> throws on a \<^verbatim>\<open>null\<close> body.
\<close>

definition lookup_item :: "string \<Rightarrow> settled \<Rightarrow> exn + jsval" where
  "lookup_item ip fetched =
     (case fetched of
        Rejected \<Rightarrow> Inl FetchError
      | Fulfilled data \<Rightarrow>
          bind_exn (get_prop data ''status'') (\<lambda>status.
            if status \<noteq> JStr ''success'' then
              Inr (JObj [(''ip'', JStr ip), (''error'', JStr ''Lookup failed'')])
            else
              Inr (JObj
                [(''ip'', jsprop data ''query''),
                 (''country'', jsprop data ''country''),
                 (''countryCode'', jsprop data ''countryCode''),
                 (''city'', jsprop data ''city''),
                 (''lat'', jsprop data ''lat''),
                 (''lon'', jsprop data ''lon''),
                 (''isp'', jsprop data ''isp''),
                 (''org'', jsprop data ''org''),
                 (''asn'', jsprop data ''as''),
                 (''isProxy'', jsprop data ''proxy''),
                 (''isHosting'', jsprop data ''hosting'')])))"

text \<open>\<^verbatim>\<open>try { ... } catch (e) { return { ip, error: 'Request failed' } }\<close>\<close>

definition try_catch :: "exn + 'a \<Rightarrow> (exn \<Rightarrow> exn + 'a) \<Rightarrow> exn + 'a" where
  "try_catch body handler = (case body of Inl e \<Rightarrow> handler e | Inr v \<Rightarrow> Inr v)"

definition batch_callback :: "string \<Rightarrow> settled \<Rightarrow> exn + jsval" where
  "batch_callback ip fetched =
     try_catch (lookup_item ip fetched)
       (\<lambda>e. Inr (JObj [(''ip'', JStr ip), (''error'', JStr ''Request failed'')]))"

text \<open>\<^verbatim>\<open>Promise.all\<close>: the values in the order of the promises, or a rejection if one rejects.\<close>

fun promise_all :: "(exn + 'a) list \<Rightarrow> exn + 'a list" where
  "promise_all [] = Inr []"
| "promise_all (Inl e # ps) = Inl e"
| "promise_all (Inr v # ps) = (case promise_all ps of Inl e \<Rightarrow> Inl e | Inr vs \<Rightarrow> Inr (v # vs))"

text \<open>
  The handler of \<^verbatim>\<open>batch\<close>. \<open>fetch i\<close> is how the fetch issued for the \<open>i\<close>-th valid
  address settled; the input schema (1 to 10 strings) is checked before the handler runs.
  \<^verbatim>\<open>fetchedAt\<close> is left out.
\<close>

definition batch :: "string list \<Rightarrow> (nat \<Rightarrow> settled) \<Rightarrow> exn + jsval" where
  "batch ips fetch =
     (let validIPs = filter isValidIP ips;
          invalidIPs = filter (\<lambda>ip. \<not> isValidIP ip) ips
      in bind_exn (promise_all (map (\<lambda>(i, ip). batch_callback ip (fetch i)) (enumerate 0 validIPs)))
           (\<lambda>results.
              Inr (JObj
                [(''results'', JArr results),
                 (''invalidIPs'', if length invalidIPs > 0 then JArr (map JStr invalidIPs) else JUndefined),
                 (''count'', JObj
                   [(''requested'', JNum (Finite (real (length ips)))),
                    (''valid'', JNum (Finite (real (length validIPs)))),
                    (''invalid'', JNum (Finite (real (length invalidIPs))))]),
                 (''source'', JStr ''ip-api.com'')])))"

text \<open>The elements of an array value.\<close>

fun elements :: "jsval \<Rightarrow> jsval list" where
  "elements (JArr xs) = xs"
| "elements v = []"


section \<open>Reading a handler's result\<close>

text \<open>Property \<open>k\<close> of the returned output, and property \<open>k\<close> of its block \<open>block\<close>.\<close>

definition output_prop :: "exn + jsval \<Rightarrow> string \<Rightarrow> exn + jsval" where
  "output_prop r k = (case r of Inl e \<Rightarrow> Inl e | Inr out \<Rightarrow> Inr (jsprop out k))"

definition output_field :: "exn + jsval \<Rightarrow> string \<Rightarrow> string \<Rightarrow> exn + jsval" where
  "output_field r block k = output_prop (output_prop r block) k"


abbreviation location_of :: "jsval \<Rightarrow> string \<Rightarrow> jsval" where
  "location_of out k \<equiv> jsprop (jsprop out ''location'') k"

abbreviation network_of :: "jsval \<Rightarrow> string \<Rightarrow> jsval" where
  "network_of out k \<equiv> jsprop (jsprop out ''network'') k"

abbreviation threat_of :: "jsval \<Rightarrow> string \<Rightarrow> jsval" where
  "threat_of out k \<equiv> jsprop (jsprop out ''threat'') k"

abbreviation confidence_of :: "jsval \<Rightarrow> string \<Rightarrow> jsval" where
  "confidence_of out k \<equiv> jsprop (jsprop out ''confidence'') k"

text \<open>Two bodies for a lookup of 8.8.8.8: the primary source's, with an empty zip, and the secondary's.\<close>

definition sample_primary :: jsval where
  "sample_primary =
     JObj [(''status'', JStr ''success''), (''country'', JStr ''United States''),
           (''countryCode'', JStr ''US''), (''zip'', JStr []),
           (''lat'', JNum (Finite 37.4)), (''lon'', JNum (Finite (- 122.1))),
           (''as'', JStr ''AS15169 Google LLC''),
           (''proxy'', JBool False), (''hosting'', JBool True)]"

definition sample_secondary :: jsval where
  "sample_secondary =
     JObj [(''postal'', JStr ''94043''), (''loc'', JStr ''37.4056,-122.0775''),
           (''anycast'', JBool True)]"

text \<open>
  A fixed pair of built-ins for evaluating the handlers on concrete bodies. None of the
  bodies evaluated below makes the handler call \<^verbatim>\<open>parseFloat\<close> or convert a number to a
  string.
\<close>

definition sample_builtins :: builtins where
  "sample_builtins = \<lparr>parseFloat = (\<lambda>s. NaN), numberToString = (\<lambda>x. ''0'')\<rparr>"

section \<open>The specification's notions\<close>

text \<open>
  The specification's rule for a merged field: the first source, in the given order, whose
  field is present and non-null.
\<close>

fun first_present :: "jsval list \<Rightarrow> jsval" where
  "first_present [] = JUndefined"
| "first_present (v # vs) = (if nullish v then first_present vs else v)"

text \<open>The first truthy operand of a chain, and its last operand when none is truthy.\<close>

fun first_truthy :: "jsval list \<Rightarrow> jsval" where
  "first_truthy [] = JUndefined"
| "first_truthy [v] = v"
| "first_truthy (v # vs) = (if truthy v then v else first_truthy vs)"

section \<open>Evaluating the IP syntax check\<close>

lemma valid_8888: "isValidIP ''8.8.8.8''"
  by code_simp

lemma valid_1111: "isValidIP ''1.1.1.1''"
  by code_simp

lemma valid_127: "isValidIP ''127.0.0.1''"
  by code_simp

lemma invalid_word: "\<not> isValidIP ''not-an-ip''"
  by code_simp

section \<open>The risk score: rule table, thresholds, monotonicity\<close>

lemma risk_accumulate_score:
  "riskScore (risk_accumulate data) =
     (if truthy (jsprop data ''proxy'') then 40 else 0)
   + (if truthy (jsprop data ''hosting'') then 30 else 0)
   + (if truthy (jsprop data ''mobile'') then 10 else 0)
   + (if truthy (jsprop data ''reverse'') then 0 else 10)"
  by (simp add: risk_accumulate_def bump_def Let_def)

lemma risk_accumulate_factors:
  "riskFactors (risk_accumulate data) =
     (if truthy (jsprop data ''proxy'') then [''proxy_or_vpn''] else [])
   @ (if truthy (jsprop data ''hosting'') then [''datacenter_hosting''] else [])
   @ (if truthy (jsprop data ''mobile'') then [''mobile_carrier''] else [])
   @ (if truthy (jsprop data ''reverse'') then [] else [''no_reverse_dns''])"
  by (simp add: risk_accumulate_def bump_def Let_def)

lemma riskLevel_thresholds:
  "(riskLevel s = ''high'') = (s \<ge> 50)"
  "(riskLevel s = ''medium'') = (20 \<le> s \<and> s < 50)"
  "(riskLevel s = ''low'') = (s < 20)"
  by (auto simp add: riskLevel_def)

text \<open>
  C4. The score of the threat output is the sum of +40 (proxy/VPN), +30 (hosting),
  +10 (mobile) and +10 (no reverse DNS) over the signals that fire; the factors are the
  names of the firing signals in that order; the level is high exactly from 50 up, medium
  exactly from 20 to 49, low exactly below 20. Proxy with no reverse DNS scores exactly 50
  (high), mobile with no reverse DNS exactly 20 (medium); all four signals score 90 (high),
  no signal with reverse DNS present scores 0 (low), a missing reverse DNS alone 10 (low).
\<close>

theorem risk_rule_table:
  "score (risk_of data) =
       (if truthy (jsprop data ''proxy'') then 40 else 0)
     + (if truthy (jsprop data ''hosting'') then 30 else 0)
     + (if truthy (jsprop data ''mobile'') then 10 else 0)
     + (if truthy (jsprop data ''reverse'') then 0 else 10)
   \<and> factors (risk_of data) =
       (if truthy (jsprop data ''proxy'') then [''proxy_or_vpn''] else [])
     @ (if truthy (jsprop data ''hosting'') then [''datacenter_hosting''] else [])
     @ (if truthy (jsprop data ''mobile'') then [''mobile_carrier''] else [])
     @ (if truthy (jsprop data ''reverse'') then [] else [''no_reverse_dns''])
   \<and> level (risk_of data) = riskLevel (score (risk_of data))
   \<and> (riskLevel s = ''high'') = (s \<ge> 50)
   \<and> (riskLevel s = ''medium'') = (20 \<le> s \<and> s < 50)
   \<and> (riskLevel s = ''low'') = (s < 20)
   \<and> risk_of (JObj [(''proxy'', JBool True), (''hosting'', JBool True), (''mobile'', JBool True),
                    (''reverse'', JStr [])])
       = \<lparr>score = 90, level = ''high'',
          factors = [''proxy_or_vpn'', ''datacenter_hosting'', ''mobile_carrier'', ''no_reverse_dns'']\<rparr>
   \<and> risk_of (JObj [(''proxy'', JBool False), (''hosting'', JBool False), (''mobile'', JBool False),
                    (''reverse'', JStr ''dns.google'')])
       = \<lparr>score = 0, level = ''low'', factors = []\<rparr>
   \<and> risk_of (JObj [(''proxy'', JBool False), (''hosting'', JBool False), (''mobile'', JBool False),
                    (''reverse'', JStr [])])
       = \<lparr>score = 10, level = ''low'', factors = [''no_reverse_dns'']\<rparr>
   \<and> risk_of (JObj [(''proxy'', JBool True), (''hosting'', JBool False), (''mobile'', JBool False),
                    (''reverse'', JStr [])])
       = \<lparr>score = 50, level = ''high'', factors = [''proxy_or_vpn'', ''no_reverse_dns'']\<rparr>
   \<and> risk_of (JObj [(''proxy'', JBool False), (''hosting'', JBool False), (''mobile'', JBool True),
                    (''reverse'', JStr [])])
       = \<lparr>score = 20, level = ''medium'', factors = [''mobile_carrier'', ''no_reverse_dns'']\<rparr>"
proof -
  have ex: "\<And>p h m r. risk_of (JObj [(''proxy'', JBool p), (''hosting'', JBool h),
                 (''mobile'', JBool m), (''reverse'', JStr r)])
       = \<lparr>score = (if p then 40 else 0) + (if h then 30 else 0) + (if m then 10 else 0)
                   + (if r \<noteq> [] then 0 else 10),
          level = riskLevel ((if p then 40 else 0) + (if h then 30 else 0) + (if m then 10 else 0)
                   + (if r \<noteq> [] then 0 else 10)),
          factors = (if p then [''proxy_or_vpn''] else []) @ (if h then [''datacenter_hosting''] else [])
                  @ (if m then [''mobile_carrier''] else []) @ (if r \<noteq> [] then [] else [''no_reverse_dns''])\<rparr>"
    by (simp add: risk_of_def risk_accumulate_def bump_def Let_def)
  show ?thesis
    by (simp add: ex riskLevel_thresholds)
       (simp add: risk_of_def Let_def risk_accumulate_score risk_accumulate_factors riskLevel_def)
qed

text \<open>
  C7. If every risk condition that holds for \<open>d1\<close> (proxy/VPN set, hosting set, mobile
  set, reverse DNS missing) also holds for \<open>d2\<close>, the score of \<open>d2\<close> is at least the
  score of \<open>d1\<close>.
\<close>

theorem risk_score_monotone:
  assumes "truthy (jsprop d1 ''proxy'') \<longrightarrow> truthy (jsprop d2 ''proxy'')"
    and "truthy (jsprop d1 ''hosting'') \<longrightarrow> truthy (jsprop d2 ''hosting'')"
    and "truthy (jsprop d1 ''mobile'') \<longrightarrow> truthy (jsprop d2 ''mobile'')"
    and "\<not> truthy (jsprop d1 ''reverse'') \<longrightarrow> \<not> truthy (jsprop d2 ''reverse'')"
  shows "score (risk_of d1) \<le> score (risk_of d2)"
proof -
  have "riskScore (risk_accumulate d1) \<le> riskScore (risk_accumulate d2)"
    unfolding risk_accumulate_score using assms by (auto split: if_splits)
  then show ?thesis by (simp add: risk_of_def Let_def)
qed

theorem risk_score_monotone_witness:
  "score (risk_of (JObj [(''proxy'', JBool True), (''reverse'', JStr ''a.example'')])) = 40
   \<and> score (risk_of (JObj [(''proxy'', JBool True), (''hosting'', JBool True)])) = 80
   \<and> score (risk_of (JObj [(''proxy'', JBool True), (''reverse'', JStr ''a.example'')]))
     \<le> score (risk_of (JObj [(''proxy'', JBool True), (''hosting'', JBool True)]))"
  using risk_score_monotone
    [of "JObj [(''proxy'', JBool True), (''reverse'', JStr ''a.example'')]"
        "JObj [(''proxy'', JBool True), (''hosting'', JBool True)]"]
  by (simp add: risk_of_def Let_def risk_accumulate_score)

section \<open>Full lookup: what each output field is\<close>

lemma merged_location:
  assumes "merged B ip p s t = Inr out"
  shows "location_of out ''country''
           = js_or (js_or (opt_prop p ''country'') (opt_prop s ''country'')) (opt_prop t ''country'')"
    and "location_of out ''countryCode''
           = js_or (js_or (opt_prop p ''countryCode'') (opt_prop s ''country'')) (opt_prop t ''country_code'')"
    and "location_of out ''region''
           = js_or (js_or (opt_prop p ''regionName'') (opt_prop s ''region'')) (opt_prop t ''region'')"
    and "location_of out ''city''
           = js_or (js_or (opt_prop p ''city'') (opt_prop s ''city'')) (opt_prop t ''city'')"
    and "location_of out ''zip''
           = js_or (js_or (opt_prop p ''zip'') (opt_prop s ''postal'')) (opt_prop t ''postal'')"
    and "location_of out ''timezone''
           = js_or (js_or (opt_prop p ''timezone'') (opt_prop s ''timezone''))
                   (opt_prop (opt_prop t ''timezone'') ''id'')"
    and "location_lat B p s t = Inr (location_of out ''lat'')"
    and "location_lon B p s t = Inr (location_of out ''lon'')"
  using assms
  by (auto simp add: merged_def bind_exn_def split: sum.splits)

lemma merged_network:
  assumes "merged B ip p s t = Inr out"
  shows "network_of out ''isp''
           = js_or (opt_prop p ''isp'') (opt_prop (opt_prop t ''connection'') ''isp'')"
    and "network_of out ''org''
           = js_or (js_or (opt_prop p ''org'') (opt_prop s ''org''))
                   (opt_prop (opt_prop t ''connection'') ''org'')"
    and "network_asn B p s t = Inr (network_of out ''asn'')"
    and "network_of out ''hostname'' = js_or (opt_prop p ''reverse'') (opt_prop s ''hostname'')"
    and "network_of out ''domain'' = opt_prop (opt_prop t ''connection'') ''domain''"
  using assms
  by (auto simp add: merged_def bind_exn_def split: sum.splits)

lemma merged_threat:
  assumes "merged B ip p s t = Inr out"
  shows "threat_of out ''isProxy'' = js_coalesce (opt_prop p ''proxy'') (JBool False)"
    and "threat_of out ''isVPN'' = js_coalesce (opt_prop p ''proxy'') (JBool False)"
    and "threat_of out ''isHosting'' = js_coalesce (opt_prop p ''hosting'') (JBool False)"
    and "threat_of out ''isMobile'' = js_coalesce (opt_prop p ''mobile'') (JBool False)"
    and "threat_of out ''isAnycast'' = js_coalesce (opt_prop s ''anycast'') (JBool False)"
  using assms
  by (auto simp add: merged_def bind_exn_def split: sum.splits)

lemma merged_confidence:
  assumes "merged B ip p s t = Inr out"
  shows "confidence_of out ''sourcesQueried'' = JNum (Finite 3)"
    and "confidence_of out ''sourcesResponded''
           = JNum (Finite (real (length (filter truthy [p, s, t]))))"
  using assms
  by (auto simp add: merged_def bind_exn_def split: sum.splits)

lemma full_valid:
  "isValidIP ip \<Longrightarrow> full B ip a b c = merged B ip (settled_value a) (settled_value b) (settled_value c)"
  by (simp add: full_def Let_def)

lemma lat_primary:
  assumes "location_lat B p s t = Inr v" and "truthy (opt_prop p ''lat'')"
  shows "v = opt_prop p ''lat''"
  using assms by (simp add: location_lat_def or_lazy_def)

lemma lat_tertiary:
  assumes "location_lat B p s t = Inr v" and "\<not> truthy (opt_prop p ''lat'')"
    and "\<not> truthy (opt_prop s ''loc'')"
  shows "v = opt_prop t ''latitude''"
  using assms by (auto simp add: location_lat_def or_lazy_def loc_part_def bind_exn_def js_or_def)

lemma lat_secondary:
  assumes "location_lat B p s t = Inr v" and "\<not> truthy (opt_prop p ''lat'')"
    and "opt_prop s ''loc'' = JStr str" and "str \<noteq> []"
  shows "v = first_truthy [JNum (parseFloat B (to_string B (at_index (split_comma str) 0))),
                           opt_prop t ''latitude'']"
  using assms by (auto simp add: location_lat_def or_lazy_def loc_part_def bind_exn_def js_or_def)

lemma lon_primary:
  assumes "location_lon B p s t = Inr v" and "truthy (opt_prop p ''lon'')"
  shows "v = opt_prop p ''lon''"
  using assms by (simp add: location_lon_def or_lazy_def)

lemma lon_tertiary:
  assumes "location_lon B p s t = Inr v" and "\<not> truthy (opt_prop p ''lon'')"
    and "\<not> truthy (opt_prop s ''loc'')"
  shows "v = opt_prop t ''longitude''"
  using assms by (auto simp add: location_lon_def or_lazy_def loc_part_def bind_exn_def js_or_def)

lemma lon_secondary:
  assumes "location_lon B p s t = Inr v" and "\<not> truthy (opt_prop p ''lon'')"
    and "opt_prop s ''loc'' = JStr str" and "str \<noteq> []"
  shows "v = first_truthy [JNum (parseFloat B (to_string B (at_index (split_comma str) 1))),
                           opt_prop t ''longitude'']"
  using assms by (auto simp add: location_lon_def or_lazy_def loc_part_def bind_exn_def js_or_def)

lemma asn_returned:
  assumes "network_asn B p s t = Inr v"
  shows "v = first_truthy [opt_prop p ''as'', opt_prop s ''org'',
                           JStr (''AS'' @ to_string B (opt_prop (opt_prop t ''connection'') ''asn''))]"
  using assms
  by (auto simp add: network_asn_def or_lazy_def template_AS_def js_or_def split: if_splits)

lemmas full_eval =
  full_def merged_def location_lat_def location_lon_def network_asn_def template_AS_def
  loc_part_def or_lazy_def bind_exn_def
  js_or_def js_coalesce_def opt_prop_def settled_value_def output_field_def output_prop_def Let_def

text \<open>
  C1, as the code has it. For a valid address and a handler that returns, every location
  and network field is the first truthy operand of that field's own chain of source
  properties (the last operand when none is truthy), so an empty string falls through
  like \<^verbatim>\<open>undefined\<close> and \<^verbatim>\<open>null\<close>: country, region, city, zip, timezone and org
  run primary, secondary, tertiary; countryCode takes secondary's \<^verbatim>\<open>country\<close>; isp
  skips secondary; hostname stops at secondary; domain is tertiary's alone. The asn chain
  ends in \<^verbatim>\<open>AS\<close> followed by tertiary's number, stated when an earlier operand is
  truthy or that number is present. The lat and lon chains run primary, the number
  parsed from the matching half of secondary's \<^verbatim>\<open>loc\<close>, tertiary; they are stated for
  coordinates other than 0. The threat booleans alone keep a present \<^verbatim>\<open>false\<close>: each is
  the one source's property when that is neither \<^verbatim>\<open>undefined\<close> nor \<^verbatim>\<open>null\<close>, and
  \<^verbatim>\<open>false\<close> otherwise, with no second source.
\<close>

theorem full_merge_first_truthy:
  assumes "isValidIP ip" and "full B ip ipApi ipInfo ipWho = Inr out"
  shows
   "(let p = settled_value ipApi; s = settled_value ipInfo; t = settled_value ipWho;
         conn = opt_prop t ''connection'';
         zero = JNum (Finite 0)
     in location_of out ''country''
          = first_truthy [opt_prop p ''country'', opt_prop s ''country'', opt_prop t ''country'']
      \<and> location_of out ''countryCode''
          = first_truthy [opt_prop p ''countryCode'', opt_prop s ''country'', opt_prop t ''country_code'']
      \<and> location_of out ''region''
          = first_truthy [opt_prop p ''regionName'', opt_prop s ''region'', opt_prop t ''region'']
      \<and> location_of out ''city''
          = first_truthy [opt_prop p ''city'', opt_prop s ''city'', opt_prop t ''city'']
      \<and> location_of out ''zip''
          = first_truthy [opt_prop p ''zip'', opt_prop s ''postal'', opt_prop t ''postal'']
      \<and> location_of out ''timezone''
          = first_truthy [opt_prop p ''timezone'', opt_prop s ''timezone'',
                          opt_prop (opt_prop t ''timezone'') ''id'']
      \<and> network_of out ''isp'' = first_truthy [opt_prop p ''isp'', opt_prop conn ''isp'']
      \<and> network_of out ''org''
          = first_truthy [opt_prop p ''org'', opt_prop s ''org'', opt_prop conn ''org'']
      \<and> network_of out ''hostname'' = first_truthy [opt_prop p ''reverse'', opt_prop s ''hostname'']
      \<and> network_of out ''domain'' = opt_prop conn ''domain''
      \<and> (truthy (opt_prop p ''as'') \<or> truthy (opt_prop s ''org'') \<or> \<not> nullish (opt_prop conn ''asn'')
            \<longrightarrow> network_of out ''asn''
                  = first_truthy [opt_prop p ''as'', opt_prop s ''org'',
                                  JStr (''AS'' @ to_string B (opt_prop conn ''asn''))])
      \<and> (truthy (opt_prop p ''lat'') \<longrightarrow> location_of out ''lat'' = opt_prop p ''lat'')
      \<and> (\<not> truthy (opt_prop p ''lat'') \<and> opt_prop p ''lat'' \<noteq> zero \<and> \<not> truthy (opt_prop s ''loc'')
            \<longrightarrow> location_of out ''lat'' = opt_prop t ''latitude'')
      \<and> (\<forall>str parsed.
            \<not> truthy (opt_prop p ''lat'') \<and> opt_prop p ''lat'' \<noteq> zero
            \<and> opt_prop s ''loc'' = JStr str \<and> str \<noteq> []
            \<and> parsed = JNum (parseFloat B (to_string B (at_index (split_comma str) 0)))
            \<and> parsed \<noteq> zero
            \<longrightarrow> location_of out ''lat'' = first_truthy [parsed, opt_prop t ''latitude''])
      \<and> (truthy (opt_prop p ''lon'') \<longrightarrow> location_of out ''lon'' = opt_prop p ''lon'')
      \<and> (\<not> truthy (opt_prop p ''lon'') \<and> opt_prop p ''lon'' \<noteq> zero \<and> \<not> truthy (opt_prop s ''loc'')
            \<longrightarrow> location_of out ''lon'' = opt_prop t ''longitude'')
      \<and> (\<forall>str parsed.
            \<not> truthy (opt_prop p ''lon'') \<and> opt_prop p ''lon'' \<noteq> zero
            \<and> opt_prop s ''loc'' = JStr str \<and> str \<noteq> []
            \<and> parsed = JNum (parseFloat B (to_string B (at_index (split_comma str) 1)))
            \<and> parsed \<noteq> zero
            \<longrightarrow> location_of out ''lon'' = first_truthy [parsed, opt_prop t ''longitude''])
      \<and> threat_of out ''isProxy''
          = (if nullish (opt_prop p ''proxy'') then JBool False else opt_prop p ''proxy'')
      \<and> threat_of out ''isVPN''
          = (if nullish (opt_prop p ''proxy'') then JBool False else opt_prop p ''proxy'')
      \<and> threat_of out ''isHosting''
          = (if nullish (opt_prop p ''hosting'') then JBool False else opt_prop p ''hosting'')
      \<and> threat_of out ''isMobile''
          = (if nullish (opt_prop p ''mobile'') then JBool False else opt_prop p ''mobile'')
      \<and> threat_of out ''isAnycast''
          = (if nullish (opt_prop s ''anycast'') then JBool False else opt_prop s ''anycast''))"
proof -
  define p where "p = settled_value ipApi"
  define s where "s = settled_value ipInfo"
  define t where "t = settled_value ipWho"
  have m: "merged B ip p s t = Inr out"
    using assms by (simp add: full_valid p_def s_def t_def)
  note loc = merged_location [OF m] and net = merged_network [OF m] and thr = merged_threat [OF m]
  have strings:
    "location_of out ''country''
          = first_truthy [opt_prop p ''country'', opt_prop s ''country'', opt_prop t ''country'']"
    "location_of out ''countryCode''
          = first_truthy [opt_prop p ''countryCode'', opt_prop s ''country'', opt_prop t ''country_code'']"
    "location_of out ''region''
          = first_truthy [opt_prop p ''regionName'', opt_prop s ''region'', opt_prop t ''region'']"
    "location_of out ''city''
          = first_truthy [opt_prop p ''city'', opt_prop s ''city'', opt_prop t ''city'']"
    "location_of out ''zip''
          = first_truthy [opt_prop p ''zip'', opt_prop s ''postal'', opt_prop t ''postal'']"
    "location_of out ''timezone''
          = first_truthy [opt_prop p ''timezone'', opt_prop s ''timezone'',
                          opt_prop (opt_prop t ''timezone'') ''id'']"
    "network_of out ''isp'' = first_truthy [opt_prop p ''isp'', opt_prop (opt_prop t ''connection'') ''isp'']"
    "network_of out ''org''
          = first_truthy [opt_prop p ''org'', opt_prop s ''org'', opt_prop (opt_prop t ''connection'') ''org'']"
    "network_of out ''hostname'' = first_truthy [opt_prop p ''reverse'', opt_prop s ''hostname'']"
    "network_of out ''domain'' = opt_prop (opt_prop t ''connection'') ''domain''"
    by (simp_all add: loc(1-6) net(1,2,4,5) js_or_def)
  have asn:
    "network_of out ''asn''
          = first_truthy [opt_prop p ''as'', opt_prop s ''org'',
                          JStr (''AS'' @ to_string B (opt_prop (opt_prop t ''connection'') ''asn''))]"
    by (rule asn_returned [OF net(3)])
  have booleans:
    "threat_of out ''isProxy''
          = (if nullish (opt_prop p ''proxy'') then JBool False else opt_prop p ''proxy'')"
    "threat_of out ''isVPN''
          = (if nullish (opt_prop p ''proxy'') then JBool False else opt_prop p ''proxy'')"
    "threat_of out ''isHosting''
          = (if nullish (opt_prop p ''hosting'') then JBool False else opt_prop p ''hosting'')"
    "threat_of out ''isMobile''
          = (if nullish (opt_prop p ''mobile'') then JBool False else opt_prop p ''mobile'')"
    "threat_of out ''isAnycast''
          = (if nullish (opt_prop s ''anycast'') then JBool False else opt_prop s ''anycast'')"
    by (simp_all only: thr js_coalesce_def)
  have lat:
    "truthy (opt_prop p ''lat'') \<longrightarrow> location_of out ''lat'' = opt_prop p ''lat''"
    "\<not> truthy (opt_prop p ''lat'') \<and> \<not> truthy (opt_prop s ''loc'')
       \<longrightarrow> location_of out ''lat'' = opt_prop t ''latitude''"
    "\<forall>str. \<not> truthy (opt_prop p ''lat'') \<and> opt_prop s ''loc'' = JStr str \<and> str \<noteq> []
       \<longrightarrow> location_of out ''lat''
             = first_truthy [JNum (parseFloat B (to_string B (at_index (split_comma str) 0))),
                             opt_prop t ''latitude'']"
    using lat_primary [OF loc(7)] lat_tertiary [OF loc(7)] lat_secondary [OF loc(7)] by blast+
  have lon:
    "truthy (opt_prop p ''lon'') \<longrightarrow> location_of out ''lon'' = opt_prop p ''lon''"
    "\<not> truthy (opt_prop p ''lon'') \<and> \<not> truthy (opt_prop s ''loc'')
       \<longrightarrow> location_of out ''lon'' = opt_prop t ''longitude''"
    "\<forall>str. \<not> truthy (opt_prop p ''lon'') \<and> opt_prop s ''loc'' = JStr str \<and> str \<noteq> []
       \<longrightarrow> location_of out ''lon''
             = first_truthy [JNum (parseFloat B (to_string B (at_index (split_comma str) 1))),
                             opt_prop t ''longitude'']"
    using lon_primary [OF loc(8)] lon_tertiary [OF loc(8)] lon_secondary [OF loc(8)] by blast+
  show ?thesis
    unfolding Let_def p_def [symmetric] s_def [symmetric] t_def [symmetric]
    using strings asn booleans lat lon by blast
qed

text \<open>
  The theorem at a concrete lookup: primary reports an empty zip, a latitude and a false
  proxy flag, secondary a postal code and an anycast flag, and the tertiary fetch rejects.
\<close>

theorem full_merge_first_truthy_witness:
  "output_field (full sample_builtins ''8.8.8.8'' (Fulfilled sample_primary) (Fulfilled sample_secondary) Rejected)
     ''location'' ''zip'' = Inr (JStr ''94043'')
   \<and> output_field (full sample_builtins ''8.8.8.8'' (Fulfilled sample_primary) (Fulfilled sample_secondary) Rejected)
     ''location'' ''country'' = Inr (JStr ''United States'')
   \<and> output_field (full sample_builtins ''8.8.8.8'' (Fulfilled sample_primary) (Fulfilled sample_secondary) Rejected)
     ''location'' ''lat'' = Inr (JNum (Finite 37.4))
   \<and> output_field (full sample_builtins ''8.8.8.8'' (Fulfilled sample_primary) (Fulfilled sample_secondary) Rejected)
     ''network'' ''asn'' = Inr (JStr ''AS15169 Google LLC'')
   \<and> output_field (full sample_builtins ''8.8.8.8'' (Fulfilled sample_primary) (Fulfilled sample_secondary) Rejected)
     ''threat'' ''isProxy'' = Inr (JBool False)
   \<and> output_field (full sample_builtins ''8.8.8.8'' (Fulfilled sample_primary) (Fulfilled sample_secondary) Rejected)
     ''threat'' ''isAnycast'' = Inr (JBool True)"
proof -
  let ?r = "full sample_builtins ''8.8.8.8'' (Fulfilled sample_primary) (Fulfilled sample_secondary) Rejected"
  have "\<exists>out. ?r = Inr out"
    by (simp add: full_eval valid_8888 sample_primary_def sample_secondary_def)
  then obtain out where out: "?r = Inr out"
    by blast
  note fields = full_merge_first_truthy [OF valid_8888 out, unfolded Let_def]
  have "location_of out ''zip'' = JStr ''94043''"
    and "location_of out ''country'' = JStr ''United States''"
    and "location_of out ''lat'' = JNum (Finite 37.4)"
    and "network_of out ''asn'' = JStr ''AS15169 Google LLC''"
    and "threat_of out ''isProxy'' = JBool False"
    and "threat_of out ''isAnycast'' = JBool True"
    using fields
    by (simp_all add: opt_prop_def settled_value_def sample_primary_def sample_secondary_def)
  then show ?thesis
    unfolding output_field_def out by (simp add: output_prop_def)
qed

text \<open>
  C1 as stated fails: primary's zip is present and non-null (the empty string), so the
  stated rule selects it, while the handler returns secondary's postal code.
\<close>

theorem full_merge_counterexample:
  "output_field
     (full sample_builtins ''8.8.8.8''
        (Fulfilled (JObj [(''status'', JStr ''success''), (''zip'', JStr [])]))
        (Fulfilled (JObj [(''postal'', JStr ''94043'')]))
        Rejected)
     ''location'' ''zip''
   = Inr (JStr ''94043'')
   \<and> first_present
       [opt_prop (settled_value (Fulfilled (JObj [(''status'', JStr ''success''), (''zip'', JStr [])]))) ''zip'',
        opt_prop (settled_value (Fulfilled (JObj [(''postal'', JStr ''94043'')]))) ''postal'',
        opt_prop (settled_value Rejected) ''postal'']
     = JStr []"
  by (simp add: full_eval valid_8888)

text \<open>
  C2. A primary body with \<^verbatim>\<open>status: 'fail'\<close> is not treated like a rejected fetch: its
  country and proxy flag reach the merged output, where a rejected fetch leaves
  \<^verbatim>\<open>undefined\<close> and \<^verbatim>\<open>false\<close>.
\<close>

theorem full_failure_status_contributes:
  "output_field
     (full sample_builtins ''8.8.8.8''
        (Fulfilled (JObj [(''status'', JStr ''fail''), (''message'', JStr ''invalid query''),
                          (''country'', JStr ''Nowhere''), (''proxy'', JBool True)]))
        Rejected Rejected)
     ''location'' ''country''
   = Inr (JStr ''Nowhere'')
   \<and> output_field
     (full sample_builtins ''8.8.8.8''
        (Fulfilled (JObj [(''status'', JStr ''fail''), (''message'', JStr ''invalid query''),
                          (''country'', JStr ''Nowhere''), (''proxy'', JBool True)]))
        Rejected Rejected)
     ''threat'' ''isProxy''
   = Inr (JBool True)
   \<and> output_field (full sample_builtins ''8.8.8.8'' Rejected Rejected Rejected) ''location'' ''country''
   = Inr JUndefined
   \<and> output_field (full sample_builtins ''8.8.8.8'' Rejected Rejected Rejected) ''threat'' ''isProxy''
   = Inr (JBool False)"
  by (simp add: full_eval valid_8888)

text \<open>
  C3. With a primary body of \<^verbatim>\<open>status: 'fail'\<close> and the other two fetches rejected, no
  source returned a success status, yet \<^verbatim>\<open>sourcesResponded\<close> is 1 (and
  \<^verbatim>\<open>sourcesQueried\<close> is 3).
\<close>

theorem full_counts_failed_source:
  "output_field
     (full sample_builtins ''127.0.0.1''
        (Fulfilled (JObj [(''status'', JStr ''fail''), (''query'', JStr ''127.0.0.1'')]))
        Rejected Rejected)
     ''confidence'' ''sourcesResponded''
   = Inr (JNum (Finite 1))
   \<and> output_field
     (full sample_builtins ''127.0.0.1''
        (Fulfilled (JObj [(''status'', JStr ''fail''), (''query'', JStr ''127.0.0.1'')]))
        Rejected Rejected)
     ''confidence'' ''sourcesQueried''
   = Inr (JNum (Finite 3))"
  by (simp add: full_eval valid_127)

text \<open>
  C10. For a valid address and a handler that returns, none of the five threat properties
  is \<^verbatim>\<open>undefined\<close> or \<^verbatim>\<open>null\<close>; isProxy, isVPN, isHosting and isMobile are
  \<^verbatim>\<open>false\<close> when primary is absent (its fetch rejected, or its body \<^verbatim>\<open>null\<close>),
  isAnycast is \<^verbatim>\<open>false\<close> when secondary is absent, and isVPN equals isProxy.
\<close>

theorem full_threat_defaults:
  assumes "isValidIP ip" and "full B ip ipApi ipInfo ipWho = Inr out"
  shows "\<not> nullish (threat_of out ''isProxy'') \<and> \<not> nullish (threat_of out ''isVPN'')
       \<and> \<not> nullish (threat_of out ''isHosting'') \<and> \<not> nullish (threat_of out ''isMobile'')
       \<and> \<not> nullish (threat_of out ''isAnycast'')
       \<and> (nullish (settled_value ipApi) \<longrightarrow>
            threat_of out ''isProxy'' = JBool False \<and> threat_of out ''isVPN'' = JBool False
          \<and> threat_of out ''isHosting'' = JBool False \<and> threat_of out ''isMobile'' = JBool False)
       \<and> (nullish (settled_value ipInfo) \<longrightarrow> threat_of out ''isAnycast'' = JBool False)
       \<and> threat_of out ''isVPN'' = threat_of out ''isProxy''"
proof -
  have m: "merged B ip (settled_value ipApi) (settled_value ipInfo) (settled_value ipWho) = Inr out"
    using assms by (simp add: full_valid)
  show ?thesis
    unfolding merged_threat [OF m] by (simp add: js_coalesce_def opt_prop_def)
qed

text \<open>The theorem at a lookup where only the tertiary source answers.\<close>

theorem full_threat_defaults_witness:
  "output_field
     (full sample_builtins ''8.8.8.8'' Rejected Rejected
        (Fulfilled (JObj [(''success'', JBool True), (''country'', JStr ''Australia'')])))
     ''threat'' ''isProxy''
   = Inr (JBool False)
   \<and> output_field
     (full sample_builtins ''8.8.8.8'' Rejected Rejected
        (Fulfilled (JObj [(''success'', JBool True), (''country'', JStr ''Australia'')])))
     ''threat'' ''isAnycast''
   = Inr (JBool False)"
proof -
  let ?c = "Fulfilled (JObj [(''success'', JBool True), (''country'', JStr ''Australia'')])"
  have "\<exists>out. full sample_builtins ''8.8.8.8'' Rejected Rejected ?c = Inr out"
    by (simp add: full_eval valid_8888)
  then obtain out where out: "full sample_builtins ''8.8.8.8'' Rejected Rejected ?c = Inr out"
    by blast
  have "threat_of out ''isProxy'' = JBool False \<and> threat_of out ''isAnycast'' = JBool False"
    using full_threat_defaults [OF valid_8888 out] by (simp add: settled_value_def)
  then show ?thesis
    unfolding output_field_def out by (simp add: output_prop_def)
qed

section \<open>Batch lookup: isolation, order, counts\<close>

lemma batch_callback_fulfils:
  "batch_callback ip fetched =
     Inr (case lookup_item ip fetched of
            Inl e \<Rightarrow> JObj [(''ip'', JStr ip), (''error'', JStr ''Request failed'')]
          | Inr v \<Rightarrow> v)"
  by (simp add: batch_callback_def try_catch_def split: sum.splits)

lemma promise_all_fulfilled: "promise_all (map (\<lambda>x. Inr (f x)) xs) = Inr (map f xs)"
  by (induction xs) simp_all

lemma promise_all_callbacks:
  "promise_all (map (\<lambda>(i, ip). batch_callback ip (fetch i)) ps)
     = Inr (map (\<lambda>(i, ip). projr (batch_callback ip (fetch i))) ps)"
proof -
  have "(\<lambda>(i, ip). batch_callback ip (fetch i)) = (\<lambda>x. Inr (case x of (i, ip) \<Rightarrow> projr (batch_callback ip (fetch i))))"
    by (auto simp add: fun_eq_iff batch_callback_fulfils)
  then show ?thesis
    by (simp only: promise_all_fulfilled)
qed

lemma batch_results:
  assumes "batch ips fetch = Inr out"
  shows "elements (jsprop out ''results'')
           = map (\<lambda>(i, ip). projr (batch_callback ip (fetch i))) (enumerate 0 (filter isValidIP ips))"
  using assms
  by (auto simp add: batch_def Let_def bind_exn_def promise_all_callbacks)

lemma batch_result_nth:
  assumes "batch ips fetch = Inr out" and "i < length (filter isValidIP ips)"
  shows "batch_callback (filter isValidIP ips ! i) (fetch i) = Inr (elements (jsprop out ''results'') ! i)"
  using assms(2) by (simp add: batch_results [OF assms(1)] nth_enumerate_eq batch_callback_fulfils)

lemma batch_returns: "\<exists>out. batch ips fetch = Inr out"
  by (simp add: batch_def Let_def bind_exn_def promise_all_callbacks)

lemma callback_rejected:
  "batch_callback ip Rejected = Inr (JObj [(''ip'', JStr ip), (''error'', JStr ''Request failed'')])"
  by (simp add: batch_callback_def try_catch_def lookup_item_def)

lemma callback_not_success:
  assumes "get_prop data ''status'' \<noteq> Inr (JStr ''success'')"
  shows "batch_callback ip (Fulfilled data)
           = Inr (JObj [(''ip'', JStr ip),
                        (''error'', JStr (if nullish data then ''Request failed'' else ''Lookup failed''))])"
  using assms
  by (cases "nullish data")
     (simp_all add: batch_callback_def try_catch_def lookup_item_def bind_exn_def get_prop_def)

lemmas batch_eval =
  batch_def batch_callback_def try_catch_def lookup_item_def bind_exn_def get_prop_def
  output_prop_def output_field_def Let_def enumerate_eq_zip

text \<open>
  C5. The batch handler returns an output for every input list and every way the fetches
  settle. For the \<open>i\<close>-th valid address: a fetch that throws (a timeout aborts the
  fetch, which throws) gives the item \<^verbatim>\<open>{ip, error: 'Request failed'}\<close>; a body whose
  status is not \<^verbatim>\<open>'success'\<close> gives \<^verbatim>\<open>{ip, error}\<close> with \<^verbatim>\<open>'Lookup failed'\<close>, or
  \<^verbatim>\<open>'Request failed'\<close> when the body is \<^verbatim>\<open>null\<close>; and the item depends on the
  \<open>i\<close>-th fetch alone, so changing how any other fetch settles leaves it as it is.
\<close>

theorem batch_isolates_failures:
  "\<exists>out. batch ips fetch = Inr out
     \<and> (\<forall>i < length (filter isValidIP ips).
          (fetch i = Rejected \<longrightarrow>
             elements (jsprop out ''results'') ! i
               = JObj [(''ip'', JStr (filter isValidIP ips ! i)), (''error'', JStr ''Request failed'')])
        \<and> (\<forall>data. fetch i = Fulfilled data \<and> get_prop data ''status'' \<noteq> Inr (JStr ''success'') \<longrightarrow>
             elements (jsprop out ''results'') ! i
               = JObj [(''ip'', JStr (filter isValidIP ips ! i)),
                       (''error'', JStr (if nullish data then ''Request failed'' else ''Lookup failed''))])
        \<and> (\<forall>fetch' out'. batch ips fetch' = Inr out' \<and> fetch' i = fetch i \<longrightarrow>
             elements (jsprop out' ''results'') ! i = elements (jsprop out ''results'') ! i))"
proof -
  obtain out where out: "batch ips fetch = Inr out"
    using batch_returns by blast
  have "elements (jsprop out ''results'') ! i
          = JObj [(''ip'', JStr (filter isValidIP ips ! i)), (''error'', JStr ''Request failed'')]"
    if "i < length (filter isValidIP ips)" "fetch i = Rejected" for i
    using batch_result_nth [OF out that(1)] that(2) by (simp add: callback_rejected)
  moreover have "elements (jsprop out ''results'') ! i
          = JObj [(''ip'', JStr (filter isValidIP ips ! i)),
                  (''error'', JStr (if nullish data then ''Request failed'' else ''Lookup failed''))]"
    if "i < length (filter isValidIP ips)" "fetch i = Fulfilled data"
       "get_prop data ''status'' \<noteq> Inr (JStr ''success'')" for i data
    using batch_result_nth [OF out that(1)] that(2) callback_not_success [OF that(3)] by simp
  moreover have "elements (jsprop out' ''results'') ! i = elements (jsprop out ''results'') ! i"
    if "i < length (filter isValidIP ips)" "batch ips fetch' = Inr out'" "fetch' i = fetch i" for i fetch' out'
    using batch_result_nth [OF out that(1)] batch_result_nth [OF that(2) that(1)] that(3) by simp
  ultimately show ?thesis
    using out by blast
qed

text \<open>The theorem on three inputs, the first fetch throwing.\<close>

theorem batch_isolates_failures_witness:
  "output_prop
     (batch [''8.8.8.8'', ''not-an-ip'', ''1.1.1.1'']
        (\<lambda>i. if i = 0 then Rejected
             else Fulfilled (JObj [(''status'', JStr ''success''), (''query'', JStr ''1.1.1.1''),
                                   (''country'', JStr ''Australia'')])))
     ''results''
   = Inr (JArr
      [JObj [(''ip'', JStr ''8.8.8.8''), (''error'', JStr ''Request failed'')],
       JObj [(''ip'', JStr ''1.1.1.1''), (''country'', JStr ''Australia''),
             (''countryCode'', JUndefined), (''city'', JUndefined), (''lat'', JUndefined),
             (''lon'', JUndefined), (''isp'', JUndefined), (''org'', JUndefined),
             (''asn'', JUndefined), (''isProxy'', JUndefined), (''isHosting'', JUndefined)]])"
proof -
  let ?ips = "[''8.8.8.8'', ''not-an-ip'', ''1.1.1.1'']"
  let ?fetch = "\<lambda>i::nat. if i = 0 then Rejected
             else Fulfilled (JObj [(''status'', JStr ''success''), (''query'', JStr ''1.1.1.1''),
                                   (''country'', JStr ''Australia'')])"
  have v: "filter isValidIP ?ips = [''8.8.8.8'', ''1.1.1.1'']"
    by (simp add: valid_8888 valid_1111 invalid_word)
  obtain out where out: "batch ?ips ?fetch = Inr out"
    and fails: "\<forall>i < length (filter isValidIP ?ips).
          ?fetch i = Rejected \<longrightarrow>
             elements (jsprop out ''results'') ! i
               = JObj [(''ip'', JStr (filter isValidIP ?ips ! i)), (''error'', JStr ''Request failed'')]"
    using batch_isolates_failures [of ?ips ?fetch] by blast
  have first: "elements (jsprop out ''results'') ! 0
                 = JObj [(''ip'', JStr ''8.8.8.8''), (''error'', JStr ''Request failed'')]"
    using fails unfolding v by simp
  have "batch ?ips ?fetch = Inr out \<Longrightarrow> elements (jsprop out ''results'') ! 0
                 = JObj [(''ip'', JStr ''8.8.8.8''), (''error'', JStr ''Request failed'')]
        \<Longrightarrow> ?thesis"
    by (auto simp add: batch_eval valid_8888 valid_1111 invalid_word)
  from this [OF out first] show ?thesis .
qed




end
